theory Spec2Isabelle
  imports Main
begin

section \<open>Exceptions and results\<close>

text \<open>
  Every \<^verbatim>\<open>raise\<close> of the source is a value: a function that can raise returns
  \<open>exc + 'a\<close>, with \<open>Inl\<close> the exception that leaves the function. \<open>HTTPException\<close>
  carries \<^verbatim>\<open>status_code\<close> and \<^verbatim>\<open>detail\<close>. \<open>ExpiredSignatureError\<close> and
  \<open>JWTClaimsError\<close> are subclasses of \<open>JWTError\<close> in the token library, so
  \<^verbatim>\<open>except JWTError\<close> catches all three. \<open>ValueError\<close>, \<open>TypeError\<close> and
  \<open>OverflowError\<close> are built-in exceptions, which it does not catch.
\<close>

datatype exc =
    HTTPException int string
  | JWTError
  | ExpiredSignatureError
  | JWTClaimsError
  | KeyError string
  | ValueError
  | TypeError
  | OverflowError
  | UnknownHashError
  | IntegrityError

fun is_JWTError :: "exc \<Rightarrow> bool" where
  "is_JWTError JWTError = True"
| "is_JWTError ExpiredSignatureError = True"
| "is_JWTError JWTClaimsError = True"
| "is_JWTError _ = False"

section \<open>auth.py\<close>

subsection \<open>Tokens and the token library\<close>

text \<open>
  A claims dictionary maps claim names to JSON values. The issuer of the source only
  stores a string (the subject) and a timestamp (the expiration), but a token that
  arrives from the network can carry any JSON value: null, a boolean, an integer, a
  float, a string, a list or an object. A float is \<open>Finite m e\<close>, the number
  \<open>m * 2 ^ e\<close>, or one of the three non-finite values the JSON reader accepts. Time
  is counted in whole seconds, the unit of the \<^verbatim>\<open>exp\<close> claim.

  A token is a Python \<^verbatim>\<open>str\<close>. The model reads such a string symbolically, as the
  protocol models of \<^verbatim>\<open>HOL/Auth\<close> read ciphertexts: either it is the compact
  serialisation of a signed structure, \<open>JWS alg payload key\<close>, whose header names the
  algorithm \<open>alg\<close>, whose payload is the claims dictionary \<open>payload\<close> and whose signature
  was computed with the secret \<open>key\<close>; or it is any other string, \<open>Opaque s\<close>
  (\<open>Opaque []\<close> is the empty string). A signature verifies under exactly the secret
  that made it.
\<close>

datatype pyfloat = Finite int int | PosInf | NegInf | NaN

datatype jval =
    JNull
  | JBool bool
  | JInt int
  | JFloat pyfloat
  | JStr string
  | JList "jval list"
  | JObj "(string \<times> jval) list"

type_synonym claims = "string \<rightharpoonup> jval"

datatype token =
    Opaque string
  | JWS (jws_alg: string) (jws_payload: claims) (jws_key: string)

definition SECRET_KEY :: string where
  "SECRET_KEY = ''your-secret-key''"

definition ALGORITHM :: string where
  "ALGORITHM = ''HS256''"

text \<open>
  Python's \<^verbatim>\<open>int(v)\<close>, which the token library applies to the expiration claim. On
  a string it reads surrounding whitespace, an optional sign and decimal digits with
  single underscores between them, and raises \<open>ValueError\<close> on anything else (digits
  and spaces outside ASCII are not modelled). A boolean is 0 or 1, a finite float is
  truncated towards zero, \<open>NaN\<close> raises \<open>ValueError\<close> and an infinity
  \<open>OverflowError\<close>. Null, a list and an object raise \<open>TypeError\<close>.
\<close>

definition is_space :: "char \<Rightarrow> bool" where
  "is_space c \<longleftrightarrow>
     c = CHR '' '' \<or> (9 \<le> (of_char c :: nat) \<and> (of_char c :: nat) \<le> 13)
     \<or> (28 \<le> (of_char c :: nat) \<and> (of_char c :: nat) \<le> 31)"

definition is_digit :: "char \<Rightarrow> bool" where
  "is_digit c \<longleftrightarrow> 48 \<le> (of_char c :: nat) \<and> (of_char c :: nat) \<le> 57"

definition digit_value :: "char \<Rightarrow> int" where
  "digit_value c = int (of_char c) - 48"

fun digits :: "string \<Rightarrow> int \<Rightarrow> int option" where
  "digits [] acc = Some acc"
| "digits [c] acc = (if is_digit c then Some (10 * acc + digit_value c) else None)"
| "digits (c # d # cs) acc =
     (if is_digit c then digits (d # cs) (10 * acc + digit_value c)
      else if c = CHR ''_'' \<and> is_digit d then digits cs (10 * acc + digit_value d)
      else None)"

definition int_literal :: "string \<Rightarrow> int option" where
  "int_literal s =
     (case s of
        [] \<Rightarrow> None
      | c # cs \<Rightarrow> if is_digit c then digits cs (digit_value c) else None)"

definition strip :: "string \<Rightarrow> string" where
  "strip s = rev (dropWhile is_space (rev (dropWhile is_space s)))"

definition int_of_str :: "string \<Rightarrow> int option" where
  "int_of_str s =
     (case strip s of
        [] \<Rightarrow> None
      | c # cs \<Rightarrow>
          if c = CHR ''-'' then map_option uminus (int_literal cs)
          else if c = CHR ''+'' then int_literal cs
          else int_literal (c # cs))"

definition float_trunc :: "int \<Rightarrow> int \<Rightarrow> int" where
  "float_trunc m e =
     (if 0 \<le> e then m * 2 ^ nat e else sgn m * (\<bar>m\<bar> div 2 ^ nat (- e)))"

fun py_int :: "jval \<Rightarrow> exc + int" where
  "py_int JNull = Inl TypeError"
| "py_int (JBool b) = Inr (if b then 1 else 0)"
| "py_int (JInt i) = Inr i"
| "py_int (JFloat (Finite m e)) = Inr (float_trunc m e)"
| "py_int (JFloat PosInf) = Inl OverflowError"
| "py_int (JFloat NegInf) = Inl OverflowError"
| "py_int (JFloat NaN) = Inl ValueError"
| "py_int (JStr s) = (case int_of_str s of None \<Rightarrow> Inl ValueError | Some i \<Rightarrow> Inr i)"
| "py_int (JList vs) = Inl TypeError"
| "py_int (JObj kvs) = Inl TypeError"

text \<open>
  Modelled from the spec: \<^verbatim>\<open>jwt.encode\<close> and \<^verbatim>\<open>jwt.decode\<close> belong to the token
  library, which is not part of the sources. The issuer "serializes claims into a
  signed compact string using a symmetric secret and a fixed signing algorithm"; the
  verifier "attempts signature verification and expiration check (for tokens that carry
  an expiration claim)" and fails on "bad signature, malformed structure, or expiration
  in the past". \<^verbatim>\<open>jwt.decode\<close> takes the list of permitted algorithms, and it
  reports a token it refuses as a \<open>JWTError\<close> (or a subclass). The spec does not say
  how the expiration claim is read: the library converts it with \<^verbatim>\<open>int\<close> and
  turns the \<open>ValueError\<close> of the conversion into a \<open>JWTClaimsError\<close>; any other
  exception of the conversion leaves \<^verbatim>\<open>jwt.decode\<close> as it is. The clock is the extra
  argument \<open>now\<close>. A token is expired when its expiration lies strictly before the
  clock; claims other than \<^verbatim>\<open>exp\<close> are not interpreted.
\<close>

definition jwt_encode :: "claims \<Rightarrow> string \<Rightarrow> string \<Rightarrow> token" where
  "jwt_encode to_encode key algorithm = JWS algorithm to_encode key"

fun jwt_decode :: "int \<Rightarrow> token \<Rightarrow> string \<Rightarrow> string list \<Rightarrow> exc + claims" where
  "jwt_decode now (Opaque s) key algorithms = Inl JWTError"
| "jwt_decode now (JWS alg payload k) key algorithms =
     (if alg \<notin> set algorithms then Inl JWTError
      else if k \<noteq> key then Inl JWTError
      else (case payload ''exp'' of
              None \<Rightarrow> Inr payload
            | Some v \<Rightarrow>
                (case py_int v of
                   Inl e \<Rightarrow> if e = ValueError then Inl JWTClaimsError else Inl e
                 | Inr exp \<Rightarrow> if exp < now then Inl ExpiredSignatureError else Inr payload)))"

subsection \<open>Issuing and verifying tokens\<close>

text \<open>
  \<^verbatim>\<open>datetime.utcnow()\<close> is the argument \<open>now\<close>, in seconds;
  \<^verbatim>\<open>timedelta(minutes=m)\<close> is \<open>60 * m\<close> seconds.
\<close>

definition create_access_token :: "int \<Rightarrow> claims \<Rightarrow> int \<Rightarrow> token" where
  "create_access_token now data expires_minutes =
     (let to_encode = data;
          expire = now + 60 * expires_minutes;
          to_encode = to_encode(''exp'' \<mapsto> JInt expire)
      in jwt_encode to_encode SECRET_KEY ALGORITHM)"

definition create_refresh_token :: "claims \<Rightarrow> token" where
  "create_refresh_token data = jwt_encode data SECRET_KEY ALGORITHM"

definition decode_access_token :: "int \<Rightarrow> token \<Rightarrow> exc + claims option" where
  "decode_access_token now token =
     (case jwt_decode now token SECRET_KEY [ALGORITHM] of
        Inr payload \<Rightarrow> Inr (Some payload)
      | Inl e \<Rightarrow> if is_JWTError e then Inr None else Inl e)"

definition decode_token :: "int \<Rightarrow> token \<Rightarrow> exc + claims option" where
  "decode_token now token =
     (case jwt_decode now token SECRET_KEY [ALGORITHM] of
        Inr payload \<Rightarrow> Inr (Some payload)
      | Inl e \<Rightarrow> if is_JWTError e then Inr None else Inl e)"

subsection \<open>Password hashing\<close>

text \<open>
  Modelled from the spec: \<^verbatim>\<open>pwd_context\<close> is a \<^verbatim>\<open>CryptContext\<close> of the password
  library with the bcrypt scheme; its \<^verbatim>\<open>hash\<close> and \<^verbatim>\<open>verify\<close> are not part of the
  sources. \<^verbatim>\<open>hash\<close> "produces a salted, adaptive one-way digest" with a "fresh random
  salt"; \<^verbatim>\<open>verify\<close> "recomputes the hash using the salt embedded in digest and
  compares", and a digest that is "structurally impossible to parse" is signalled as
  an error. The model makes the two sources of the digest explicit arguments: the
  one-way function \<open>crypt\<close> (from salt and password to checksum) and the 22-character
  \<open>salt\<close> the call draws. A digest is the scheme prefix, the salt and the checksum.
\<close>

type_synonym crypt = "string \<Rightarrow> string \<Rightarrow> string"

definition bcrypt_prefix :: string where
  "bcrypt_prefix = ''$2b$12$''"

definition pwd_context_hash :: "crypt \<Rightarrow> string \<Rightarrow> string \<Rightarrow> string" where
  "pwd_context_hash crypt salt secret = bcrypt_prefix @ salt @ crypt salt secret"

definition pwd_context_identify :: "string \<Rightarrow> bool" where
  "pwd_context_identify hashed \<longleftrightarrow> take 7 hashed = bcrypt_prefix \<and> 29 \<le> length hashed"

definition pwd_context_verify :: "crypt \<Rightarrow> string \<Rightarrow> string \<Rightarrow> exc + bool" where
  "pwd_context_verify crypt secret hashed =
     (if \<not> pwd_context_identify hashed then Inl UnknownHashError
      else Inr (pwd_context_hash crypt (take 22 (drop 7 hashed)) secret = hashed))"

definition hash_password :: "crypt \<Rightarrow> string \<Rightarrow> string \<Rightarrow> string" where
  "hash_password crypt salt password = pwd_context_hash crypt salt password"

definition verify_password :: "crypt \<Rightarrow> string \<Rightarrow> string \<Rightarrow> exc + bool" where
  "verify_password crypt plain hashed = pwd_context_verify crypt plain hashed"

section \<open>models.py\<close>

text \<open>
  The \<^verbatim>\<open>User\<close> table. The primary key is \<^verbatim>\<open>Optional[int]\<close>: a new object has
  no id until the store assigns one. The field \<^verbatim>\<open>id\<close> is \<open>user_id\<close> here, \<open>id\<close>
  being the identity function of HOL.
\<close>

record user =
  user_id :: "int option"
  name :: string
  email :: string
  password :: string

section \<open>main.py\<close>

subsection \<open>The Credential Store\<close>

text \<open>
  The table is the list of its rows in rowid order, the order in which a query without
  \<^verbatim>\<open>ORDER BY\<close> scans it. Adding an object without id gives it the largest rowid
  plus one; adding one whose id is taken violates the primary key and raises
  \<open>IntegrityError\<close>, and nothing is committed.
\<close>

type_synonym store = "user list"

definition rowid :: "user \<Rightarrow> int" where
  "rowid r = (case user_id r of Some i \<Rightarrow> i | None \<Rightarrow> 0)"

definition next_rowid :: "store \<Rightarrow> int" where
  "next_rowid db = (case db of [] \<Rightarrow> 1 | r # rs \<Rightarrow> fold max (map rowid rs) (rowid r) + 1)"

definition session_add :: "store \<Rightarrow> user \<Rightarrow> exc + store \<times> user" where
  "session_add db u =
     (case user_id u of
        None \<Rightarrow> (let u' = u\<lparr>user_id := Some (next_rowid db)\<rparr>
                 in Inr (insort_key rowid u' db, u'))
      | Some i \<Rightarrow> if Some i \<in> set (map user_id db) then Inl IntegrityError
                  else Inr (insort_key rowid u db, u))"

definition session_get :: "store \<Rightarrow> int \<Rightarrow> user option" where
  "session_get db i = find (\<lambda>r. user_id r = Some i) db"

definition select_email_first :: "store \<Rightarrow> string \<Rightarrow> user option" where
  "select_email_first db e = find (\<lambda>r. email r = e) db"

subsection \<open>Responses\<close>

text \<open>
  A response is its JSON content and the cookies it sets. A handler that returns a
  plain dictionary sets no cookie.
\<close>

datatype body =
    MsgContent string
  | MsgUserContent string user
  | TokenContent token string

record cookie =
  cookie_key :: string
  cookie_value :: token
  httponly :: bool
  secure :: bool
  samesite :: string
  max_age :: int

record response =
  content :: body
  set_cookies :: "cookie list"

definition json :: "body \<Rightarrow> response" where
  "json b = \<lparr>content = b, set_cookies = []\<rparr>"

record login_form =
  username :: string
  form_password :: string

record request =
  cookies :: "string \<rightharpoonup> token"

subsection \<open>The Session Gate\<close>

text \<open>
  \<^verbatim>\<open>if not payload\<close> is true for \<^verbatim>\<open>None\<close> and for the empty dictionary;
  \<^verbatim>\<open>payload["sub"]\<close> raises \<open>KeyError\<close> when the key is missing.
\<close>

definition get_current_user :: "int \<Rightarrow> token \<Rightarrow> exc + jval" where
  "get_current_user now token =
     (case decode_access_token now token of
        Inl e \<Rightarrow> Inl e
      | Inr None \<Rightarrow> Inl (HTTPException 401 ''Invalid or expired token'')
      | Inr (Some payload) \<Rightarrow>
          if payload = Map.empty then Inl (HTTPException 401 ''Invalid or expired token'')
          else (case payload ''sub'' of
                  None \<Rightarrow> Inl (KeyError ''sub'')
                | Some s \<Rightarrow> Inr s))"

subsection \<open>User management\<close>

definition create_user :: "store \<Rightarrow> user \<Rightarrow> (exc + response) \<times> store" where
  "create_user db user =
     (case session_add db user of
        Inl e \<Rightarrow> (Inl e, db)
      | Inr (db', user') \<Rightarrow> (Inr (json (MsgUserContent ''User added'' user')), db'))"

definition update_user :: "store \<Rightarrow> int \<Rightarrow> user \<Rightarrow> (exc + response) \<times> store" where
  "update_user db uid updated_user =
     (case session_get db uid of
        None \<Rightarrow> (Inl (HTTPException 404 ''User not found''), db)
      | Some user \<Rightarrow>
          (let user = user\<lparr>name := name updated_user\<rparr>;
               user = user\<lparr>email := email updated_user\<rparr>
           in (Inr (json (MsgUserContent ''User updated'' user)),
               map (\<lambda>r. if user_id r = Some uid then user else r) db)))"

subsection \<open>Signup, login, refresh\<close>

definition signup :: "crypt \<Rightarrow> string \<Rightarrow> store \<Rightarrow> user \<Rightarrow> (exc + response) \<times> store" where
  "signup crypt salt db user =
     (case select_email_first db (email user) of
        Some existing_user \<Rightarrow> (Inl (HTTPException 400 ''User already exists''), db)
      | None \<Rightarrow>
          (let user = user\<lparr>password := hash_password crypt salt (password user)\<rparr>
           in case session_add db user of
                Inl e \<Rightarrow> (Inl e, db)
              | Inr (db', user') \<Rightarrow> (Inr (json (MsgContent ''User registered!'')), db')))"

definition login :: "crypt \<Rightarrow> int \<Rightarrow> store \<Rightarrow> login_form \<Rightarrow> exc + response" where
  "login crypt now db form_data =
     (case select_email_first db (username form_data) of
        None \<Rightarrow> Inl (HTTPException 401 ''User not found'')
      | Some user \<Rightarrow>
          (case verify_password crypt (form_password form_data) (password user) of
             Inl e \<Rightarrow> Inl e
           | Inr ok \<Rightarrow>
               if \<not> ok then Inl (HTTPException 401 ''Incorrect password'')
               else
                 (let access_token = create_access_token now [''sub'' \<mapsto> JStr (email user)] 15;
                      refresh_token = create_refresh_token [''sub'' \<mapsto> JStr (email user)]
                  in Inr \<lparr>content = TokenContent access_token ''bearer'',
                          set_cookies =
                            [\<lparr>cookie_key = ''refresh_token'',
                              cookie_value = refresh_token,
                              httponly = True,
                              secure = False,
                              samesite = ''strict'',
                              max_age = 7 * 24 * 60 * 60\<rparr>]\<rparr>)))"

text \<open>\<^verbatim>\<open>if not token\<close> is true for a missing cookie and for an empty one.\<close>

fun falsy :: "token option \<Rightarrow> bool" where
  "falsy None = True"
| "falsy (Some (Opaque s)) = (s = [])"
| "falsy (Some (JWS alg payload k)) = False"

definition refresh_token :: "int \<Rightarrow> request \<Rightarrow> exc + response" where
  "refresh_token now request =
     (let token = cookies request ''refresh_token'' in
      if falsy token then Inl (HTTPException 401 ''No refresh token found'')
      else
        (case decode_token now (the token) of
           Inl e \<Rightarrow> Inl e
         | Inr None \<Rightarrow> Inl (HTTPException 401 ''Invalid refresh token'')
         | Inr (Some payload) \<Rightarrow>
             if payload = Map.empty then Inl (HTTPException 401 ''Invalid refresh token'')
             else (case payload ''sub'' of
                     None \<Rightarrow> Inl (KeyError ''sub'')
                   | Some s \<Rightarrow>
                       (let new_access_token = create_access_token now [''sub'' \<mapsto> s] 15
                        in Inr (json (TokenContent new_access_token ''bearer''))))))"

subsection \<open>Sample data\<close>

text \<open>
  The concrete evaluations below need some one-way function and some salt; any would
  do, the theorems hold for all of them.
\<close>

definition sample_crypt :: crypt where
  "sample_crypt salt secret = rev secret @ salt"

definition sample_salt :: string where
  "sample_salt = ''abcdefghijklmnopqrstuv''"

definition alice :: user where
  "alice = \<lparr>user_id = None, name = ''Alice'', email = ''a@x.com'', password = ''correct horse''\<rparr>"

definition mallory :: user where
  "mallory = \<lparr>user_id = None, name = ''Mallory'', email = ''a@x.com'', password = ''hunter2''\<rparr>"

definition sample_db :: store where
  "sample_db =
     [\<lparr>user_id = Some 1, name = ''Alice'', email = ''a@x.com'',
       password = hash_password sample_crypt sample_salt ''correct horse''\<rparr>]"

definition bob_row :: user where
  "bob_row = \<lparr>user_id = Some 2, name = ''Bob'', email = ''b@x.com'',
               password = hash_password sample_crypt sample_salt ''tr0ub4dor''\<rparr>"

section \<open>Token lifetime\<close>

lemma jwt_decode_encode:
  "jwt_decode now (jwt_encode c SECRET_KEY ALGORITHM) SECRET_KEY [ALGORITHM] =
     (case c ''exp'' of
        None \<Rightarrow> Inr c
      | Some v \<Rightarrow>
          (case py_int v of
             Inl e \<Rightarrow> if e = ValueError then Inl JWTClaimsError else Inl e
           | Inr exp \<Rightarrow> if exp < now then Inl ExpiredSignatureError else Inr c))"
  by (simp add: jwt_encode_def)

text \<open>
  The verifier's answer on an issued access token depends only on the clock: the claims
  (with the expiration that was added) up to and including the expiration time, the
  null result afterwards.
\<close>

lemma decode_issued_access_token:
  "decode_access_token now (create_access_token t0 data m)
     = (if t0 + 60 * m < now then Inr None
        else Inr (Some (data(''exp'' \<mapsto> JInt (t0 + 60 * m)))))"
  by (simp add: decode_access_token_def create_access_token_def jwt_decode_encode)

text \<open>
  Claim C3. For every claims map \<open>data\<close>, the access token issued at time \<open>t0\<close> with
  a 15-minute lifetime verifies at every time before \<open>t0\<close> plus 15 minutes, returning
  its claims (the given ones and the expiration), and fails verification with a null
  result at every time after \<open>t0\<close> plus 15 minutes.
\<close>

theorem access_token_lifetime:
  "(now < t0 + 15 * 60 \<longrightarrow>
      decode_access_token now (create_access_token t0 data 15)
        = Inr (Some (data(''exp'' \<mapsto> JInt (t0 + 15 * 60)))))
   \<and> (t0 + 15 * 60 < now \<longrightarrow>
      decode_access_token now (create_access_token t0 data 15) = Inr None)"
proof (intro conjI impI)
  assume "now < t0 + 15 * 60"
  then have "\<not> t0 + 60 * 15 < now" by simp
  then show "decode_access_token now (create_access_token t0 data 15)
               = Inr (Some (data(''exp'' \<mapsto> JInt (t0 + 15 * 60))))"
    by (simp add: decode_issued_access_token)
next
  assume "t0 + 15 * 60 < now"
  then have "t0 + 60 * 15 < now" by simp
  then show "decode_access_token now (create_access_token t0 data 15) = Inr None"
    by (simp add: decode_issued_access_token)
qed

theorem access_token_lifetime_witness:
  "(899::int) < 0 + 15 * 60
   \<and> decode_access_token 899 (create_access_token 0 [''sub'' \<mapsto> JStr ''a@x.com''] 15)
       = Inr (Some [''sub'' \<mapsto> JStr ''a@x.com'', ''exp'' \<mapsto> JInt 900])
   \<and> (0::int) + 15 * 60 < 901
   \<and> decode_access_token 901 (create_access_token 0 [''sub'' \<mapsto> JStr ''a@x.com''] 15)
       = Inr None"
  using access_token_lifetime [of 899 0 "[''sub'' \<mapsto> JStr ''a@x.com'']"]
        access_token_lifetime [of 901 0 "[''sub'' \<mapsto> JStr ''a@x.com'']"]
  by simp

section \<open>The Token Verifier\<close>

lemma verifiers_eq: "decode_access_token = decode_token"
  by (intro ext) (simp add: decode_access_token_def decode_token_def)

lemma py_int_raises:
  "py_int v = Inl e \<Longrightarrow> e = ValueError \<or> e = TypeError \<or> e = OverflowError"
  by (cases v rule: py_int.cases) (auto split: option.splits)

lemma py_int_not_JWTError: "py_int v = Inl e \<Longrightarrow> \<not> is_JWTError e"
  using py_int_raises [of v e] by auto

lemma decode_token_cases:
  "decode_token now token =
     (case token of
        Opaque s \<Rightarrow> Inr None
      | JWS alg payload k \<Rightarrow>
          if alg \<noteq> ALGORITHM \<or> k \<noteq> SECRET_KEY then Inr None
          else (case payload ''exp'' of
                  None \<Rightarrow> Inr (Some payload)
                | Some v \<Rightarrow>
                    (case py_int v of
                       Inl e \<Rightarrow> if e = ValueError then Inr None else Inl e
                     | Inr exp \<Rightarrow> if exp < now then Inr None else Inr (Some payload))))"
  by (auto simp add: decode_token_def dest: py_int_not_JWTError
      split: token.splits option.splits sum.splits)

text \<open>
  The verifiers return for every token whose expiration claim is absent or is a value
  that \<^verbatim>\<open>int\<close> converts or refuses with \<open>ValueError\<close>: an integer, a boolean, a
  finite float or \<open>NaN\<close>, a string.
\<close>

lemma verifier_returns:
  assumes "\<forall>alg payload k v. token = JWS alg payload k \<and> payload ''exp'' = Some v
             \<longrightarrow> py_int v \<noteq> Inl TypeError \<and> py_int v \<noteq> Inl OverflowError"
  shows "\<exists>r. decode_token now token = Inr r"
proof (cases token)
  case (Opaque s)
  then show ?thesis by (simp add: decode_token_cases)
next
  case (JWS alg payload k)
  show ?thesis
  proof (cases "payload ''exp''")
    case None
    with JWS show ?thesis by (simp add: decode_token_cases)
  next
    case (Some v)
    with JWS assms have ok: "py_int v \<noteq> Inl TypeError \<and> py_int v \<noteq> Inl OverflowError"
      by blast
    show ?thesis
    proof (cases "py_int v")
      case (Inl e)
      with ok py_int_raises [OF Inl] have "e = ValueError" by auto
      with JWS Some Inl show ?thesis by (simp add: decode_token_cases)
    next
      case (Inr x)
      with JWS Some show ?thesis by (simp add: decode_token_cases)
    qed
  qed
qed

text \<open>
  Claim C8. The verifiers should return the claims or the null result for every token
  string and never raise. They do not: a token signed with the process secret whose
  expiration claim is null makes the library's conversion raise \<open>TypeError\<close>, which
  \<^verbatim>\<open>except JWTError\<close> does not catch, and the exception leaves both verifiers and the
  Session Gate. An infinite expiration does the same with \<open>OverflowError\<close>.
\<close>

theorem verifier_raises_TypeError:
  "decode_access_token 0 (JWS ALGORITHM [''sub'' \<mapsto> JStr ''a@x.com'', ''exp'' \<mapsto> JNull] SECRET_KEY)
     = Inl TypeError
   \<and> decode_token 0 (JWS ALGORITHM [''sub'' \<mapsto> JStr ''a@x.com'', ''exp'' \<mapsto> JNull] SECRET_KEY)
     = Inl TypeError
   \<and> get_current_user 0
       (JWS ALGORITHM [''sub'' \<mapsto> JStr ''a@x.com'', ''exp'' \<mapsto> JNull] SECRET_KEY)
     = Inl TypeError
   \<and> decode_access_token 0
       (JWS ALGORITHM [''sub'' \<mapsto> JStr ''a@x.com'', ''exp'' \<mapsto> JFloat PosInf] SECRET_KEY)
     = Inl OverflowError"
  by (simp add: get_current_user_def decode_access_token_def decode_token_def)

section \<open>Session Gate and Refresh Flow\<close>

lemma gate_accepts_iff:
  "(\<exists>s. get_current_user now token = Inr s)
     \<longleftrightarrow> (\<exists>payload s. decode_token now token = Inr (Some payload) \<and> payload ''sub'' = Some s)"
  unfolding get_current_user_def verifiers_eq
  by (auto split: sum.splits option.splits if_splits)

lemma decode_Some_not_falsy:
  "decode_token now token = Inr (Some payload) \<Longrightarrow> \<not> falsy (Some token)"
  by (cases token) (simp_all add: decode_token_cases)

lemma refresh_accepts_iff:
  "(\<exists>r. refresh_token now \<lparr>cookies = [''refresh_token'' \<mapsto> token]\<rparr> = Inr r)
     \<longleftrightarrow> (\<exists>payload s. decode_token now token = Inr (Some payload) \<and> payload ''sub'' = Some s)"
  using decode_Some_not_falsy[of now token]
  by (auto simp add: refresh_token_def Let_def split: sum.splits option.splits if_splits)

lemma decode_refresh_token:
  "data ''exp'' = None \<Longrightarrow> decode_token now (create_refresh_token data) = Inr (Some data)"
  by (simp add: decode_token_def create_refresh_token_def jwt_decode_encode)

lemma decode_fresh_access_token:
  "now \<le> t0 + 60 * m \<Longrightarrow>
   decode_token now (create_access_token t0 data m) = Inr (Some (data(''exp'' \<mapsto> JInt (t0 + 60 * m))))"
  by (simp add: decode_token_def create_access_token_def jwt_decode_encode)

lemma gate_result:
  "decode_token now token = Inr (Some payload) \<Longrightarrow> payload ''sub'' = Some s \<Longrightarrow>
   get_current_user now token = Inr s"
  unfolding get_current_user_def verifiers_eq by auto

lemma refresh_result:
  "cookies request ''refresh_token'' = Some token \<Longrightarrow>
   decode_token now token = Inr (Some payload) \<Longrightarrow> payload ''sub'' = Some s \<Longrightarrow>
   refresh_token now request
     = Inr (json (TokenContent (create_access_token now [''sub'' \<mapsto> s] 15) ''bearer''))"
  using decode_Some_not_falsy[of now token payload]
  by (auto simp add: refresh_token_def Let_def)

text \<open>
  Claim C4. The access-token verifier and the refresh-token verifier are the same
  function. Hence the Session Gate accepts a token exactly when the Refresh Flow
  accepts it in the refresh cookie; a refresh token, which carries no expiration
  claim, passes the Session Gate at every time with its subject as the principal; and
  an unexpired access token in the refresh cookie is exchanged by the Refresh Flow for
  a new access token of the same subject.
\<close>

theorem verifiers_interchangeable:
  "decode_access_token = decode_token
   \<and> ((\<exists>s. get_current_user now token = Inr s)
        \<longleftrightarrow> (\<exists>r. refresh_token now \<lparr>cookies = [''refresh_token'' \<mapsto> token]\<rparr> = Inr r))
   \<and> (data ''exp'' = None \<and> data ''sub'' = Some s \<longrightarrow>
        get_current_user now (create_refresh_token data) = Inr s)
   \<and> (data ''sub'' = Some s \<and> now \<le> t0 + 60 * 15 \<longrightarrow>
        refresh_token now \<lparr>cookies = [''refresh_token'' \<mapsto> create_access_token t0 data 15]\<rparr>
          = Inr (json (TokenContent (create_access_token now [''sub'' \<mapsto> s] 15) ''bearer'')))"
proof (intro conjI impI)
  show "decode_access_token = decode_token" by (rule verifiers_eq)
  show "(\<exists>s. get_current_user now token = Inr s)
        \<longleftrightarrow> (\<exists>r. refresh_token now \<lparr>cookies = [''refresh_token'' \<mapsto> token]\<rparr> = Inr r)"
    by (simp only: gate_accepts_iff refresh_accepts_iff)
next
  assume "data ''exp'' = None \<and> data ''sub'' = Some s"
  then show "get_current_user now (create_refresh_token data) = Inr s"
    by (simp add: gate_result [OF decode_refresh_token])
next
  assume a: "data ''sub'' = Some s \<and> now \<le> t0 + 60 * 15"
  then have "decode_token now (create_access_token t0 data 15)
               = Inr (Some (data(''exp'' \<mapsto> JInt (t0 + 60 * 15))))"
    by (simp add: decode_fresh_access_token)
  moreover have "(data(''exp'' \<mapsto> JInt (t0 + 60 * 15))) ''sub'' = Some s"
    using a by simp
  ultimately show "refresh_token now \<lparr>cookies = [''refresh_token'' \<mapsto> create_access_token t0 data 15]\<rparr>
          = Inr (json (TokenContent (create_access_token now [''sub'' \<mapsto> s] 15) ''bearer''))"
    using refresh_result [where request = "\<lparr>cookies = [''refresh_token'' \<mapsto> create_access_token t0 data 15]\<rparr>"
        and token = "create_access_token t0 data 15" and now = now
        and payload = "data(''exp'' \<mapsto> JInt (t0 + 60 * 15))" and s = s]
    by simp
qed

theorem verifiers_interchangeable_witness:
  "(\<exists>s. get_current_user 5000 (create_refresh_token [''sub'' \<mapsto> JStr ''a@x.com'']) = Inr s)
   \<and> (\<exists>r. refresh_token 5000
             \<lparr>cookies = [''refresh_token'' \<mapsto> create_refresh_token [''sub'' \<mapsto> JStr ''a@x.com'']]\<rparr> = Inr r)
   \<and> [''sub'' \<mapsto> JStr ''a@x.com''] ''exp'' = None
   \<and> [''sub'' \<mapsto> JStr ''a@x.com''] ''sub'' = Some (JStr ''a@x.com'')
   \<and> get_current_user 5000 (create_refresh_token [''sub'' \<mapsto> JStr ''a@x.com'']) = Inr (JStr ''a@x.com'')
   \<and> (5000::int) \<le> 4200 + 60 * 15
   \<and> refresh_token 5000
        \<lparr>cookies = [''refresh_token'' \<mapsto> create_access_token 4200 [''sub'' \<mapsto> JStr ''a@x.com''] 15]\<rparr>
       = Inr (json (TokenContent (create_access_token 5000 [''sub'' \<mapsto> JStr ''a@x.com''] 15) ''bearer''))"
  using verifiers_interchangeable [of 5000 "create_refresh_token [''sub'' \<mapsto> JStr ''a@x.com'']"
          "[''sub'' \<mapsto> JStr ''a@x.com'']" "JStr ''a@x.com''" 4200]
  by auto

section \<open>The Token Issuer\<close>

text \<open>
  Claim C9. For every claims map, the refresh token is the signed serialisation of
  exactly that map under the process secret and algorithm: its payload equals the
  given claims, no expiration claim is injected, and a map without expiration claim
  is returned unchanged by verification at every time.
\<close>

theorem refresh_token_claims:
  "create_refresh_token data = JWS ALGORITHM data SECRET_KEY
   \<and> jws_payload (create_refresh_token data) = data
   \<and> jws_payload (create_refresh_token data) ''exp'' = data ''exp''
   \<and> (data ''exp'' = None \<longrightarrow> decode_token now (create_refresh_token data) = Inr (Some data))"
  by (simp add: decode_refresh_token) (simp add: create_refresh_token_def jwt_encode_def)

theorem refresh_token_claims_witness:
  "jws_payload (create_refresh_token [''sub'' \<mapsto> JStr ''a@x.com'']) = [''sub'' \<mapsto> JStr ''a@x.com'']
   \<and> [''sub'' \<mapsto> JStr ''a@x.com''] ''exp'' = None
   \<and> decode_token 1000000 (create_refresh_token [''sub'' \<mapsto> JStr ''a@x.com''])
        = Inr (Some [''sub'' \<mapsto> JStr ''a@x.com''])"
proof -
  have h: "[''sub'' \<mapsto> JStr ''a@x.com''] ''exp'' = None" by simp
  from refresh_token_claims [of "[''sub'' \<mapsto> JStr ''a@x.com'']" 1000000] h
  show ?thesis by blast
qed

section \<open>The Refresh Flow\<close>






section \<open>Tokens without subject\<close>

lemmas int_defs = int_of_str_def strip_def int_literal_def is_digit_def is_space_def
  digit_value_def


text \<open>An expiration given as a string of digits is read as that number.\<close>

lemma digit_string_expiration:
  "decode_token 5000 (JWS ALGORITHM [''sub'' \<mapsto> JStr ''a@x.com'', ''exp'' \<mapsto> JStr ''9999''] SECRET_KEY)
     = Inr (Some [''sub'' \<mapsto> JStr ''a@x.com'', ''exp'' \<mapsto> JStr ''9999''])
   \<and> decode_token 10000 (JWS ALGORITHM [''sub'' \<mapsto> JStr ''a@x.com'', ''exp'' \<mapsto> JStr ''9999''] SECRET_KEY)
     = Inr None"
  by (simp add: decode_token_def int_defs)




section \<open>The Password Hasher\<close>

lemmas pwd_defs = verify_password_def hash_password_def pwd_context_verify_def
  pwd_context_identify_def pwd_context_hash_def bcrypt_prefix_def

text \<open>
  Claim C5. For every password \<open>p\<close>, verifying \<open>p\<close> against a digest of \<open>p\<close> returns
  true, and two calls of the hash on the same \<open>p\<close> that draw different salts (a fresh
  random salt on each call) produce two different digest strings.
\<close>

theorem hash_then_verify:
  "(length salt = 22 \<longrightarrow>
      verify_password crypt p (hash_password crypt salt p) = Inr True)
   \<and> (length salt1 = 22 \<and> length salt2 = 22 \<and> salt1 \<noteq> salt2 \<longrightarrow>
      hash_password crypt salt1 p \<noteq> hash_password crypt salt2 p)"
  by (simp add: pwd_defs)

theorem hash_then_verify_witness:
  "length sample_salt = 22
   \<and> verify_password sample_crypt ''correct horse''
         (hash_password sample_crypt sample_salt ''correct horse'')
       = Inr True
   \<and> length ''ABCDEFGHIJKLMNOPQRSTUV'' = 22
   \<and> sample_salt \<noteq> ''ABCDEFGHIJKLMNOPQRSTUV''
   \<and> hash_password sample_crypt sample_salt ''correct horse''
       \<noteq> hash_password sample_crypt ''ABCDEFGHIJKLMNOPQRSTUV'' ''correct horse''"
  using hash_then_verify [of sample_salt sample_crypt "''correct horse''"
          sample_salt "''ABCDEFGHIJKLMNOPQRSTUV''"]
  by (simp add: sample_salt_def)

section \<open>Signup and the Credential Store\<close>

lemma find_email_Some:
  "e \<in> email ` set db \<Longrightarrow> \<exists>r. select_email_first db e = Some r"
  unfolding select_email_first_def
  by (cases "find (\<lambda>r. email r = e) db") (auto simp add: find_None_iff)

lemma select_email_first_None:
  "select_email_first db e = None \<longleftrightarrow> e \<notin> email ` set db"
  unfolding select_email_first_def by (auto simp add: find_None_iff)

lemma select_email_first_email:
  "select_email_first db e = Some r \<Longrightarrow> email r = e \<and> r \<in> set db"
  unfolding select_email_first_def by (auto simp add: find_Some_iff)

lemma signup_sample:
  "signup sample_crypt sample_salt [] alice
     = (Inr (json (MsgContent ''User registered!'')), sample_db)"
  by (simp add: signup_def select_email_first_def alice_def session_add_def next_rowid_def
      Let_def sample_db_def)

text \<open>
  Claim C6. Signup with an email that already exists in the Credential Store is
  rejected with the duplicate-identity error (status 400, "User already exists"), and
  the rejected call leaves the store as it was: the number of records for that email
  is unchanged, so a store with exactly one such record still has exactly one.
\<close>

theorem signup_duplicate_rejected:
  assumes "email user \<in> email ` set db"
  shows "signup crypt salt db user = (Inl (HTTPException 400 ''User already exists''), db)
         \<and> length (filter (\<lambda>r. email r = email user) (snd (signup crypt salt db user)))
           = length (filter (\<lambda>r. email r = email user) db)"
  using find_email_Some [OF assms] by (auto simp add: signup_def)

theorem signup_duplicate_rejected_witness:
  "signup sample_crypt sample_salt [] alice
     = (Inr (json (MsgContent ''User registered!'')), sample_db)
   \<and> email alice \<in> email ` set sample_db
   \<and> signup sample_crypt ''ABCDEFGHIJKLMNOPQRSTUV'' sample_db alice
     = (Inl (HTTPException 400 ''User already exists''), sample_db)
   \<and> length (filter (\<lambda>r. email r = email alice) sample_db) = 1"
proof -
  have m: "email alice \<in> email ` set sample_db"
    by (simp add: alice_def sample_db_def)
  have one: "length (filter (\<lambda>r. email r = email alice) sample_db) = 1"
    by (simp add: alice_def sample_db_def)
  from signup_duplicate_rejected [OF m, of sample_crypt "''ABCDEFGHIJKLMNOPQRSTUV''"]
    signup_sample m one
  show ?thesis by simp
qed

subsection \<open>The store invariant\<close>

text \<open>
  Signup keeps emails unique, and the record it adds holds the digest of the submitted
  password.
\<close>

lemma distinct_map_insort_key:
  "distinct (map f (insort_key k x xs)) \<longleftrightarrow> f x \<notin> f ` set xs \<and> distinct (map f xs)"
  by (induction xs) (auto simp add: set_insort_key)

lemma session_add_rows:
  "session_add db u = Inr (db', u') \<Longrightarrow>
     db' = insort_key rowid u' db \<and> email u' = email u \<and> password u' = password u"
  by (auto simp add: session_add_def Let_def split: option.splits if_splits)

lemma signup_preserves_unique_email:
  assumes "distinct (map email db)"
  shows "distinct (map email (snd (signup crypt salt db user)))"
proof (cases "select_email_first db (email user)")
  case (Some r)
  with assms show ?thesis by (simp add: signup_def)
next
  case None
  then have new: "email user \<notin> email ` set db"
    by (simp add: select_email_first_None)
  show ?thesis
  proof (cases "session_add db (user\<lparr>password := hash_password crypt salt (password user)\<rparr>)")
    case (Inl e)
    with None assms show ?thesis by (simp add: signup_def)
  next
    case (Inr p)
    obtain db' u' where p: "p = (db', u')" by (cases p)
    from session_add_rows [OF Inr [unfolded p]]
    have "db' = insort_key rowid u' db" and "email u' = email user"
      by simp_all
    with new assms have "distinct (map email db')"
      by (simp add: distinct_map_insort_key)
    with None Inr p show ?thesis by (simp add: signup_def)
  qed
qed

lemma signup_stores_digest:
  assumes "signup crypt salt db user = (Inr resp, db')"
  shows "\<exists>i. db' = insort_key rowid
                 \<lparr>user_id = Some i, name = name user, email = email user,
                  password = hash_password crypt salt (password user)\<rparr> db"
  using assms
  by (cases user)
     (auto simp add: signup_def session_add_def Let_def split: option.splits if_splits)

text \<open>
  Claim C2. Every writing operation should keep emails unique and passwords hashed.
  Signup does (the two lemmas above); \<open>create_user\<close> and \<open>update_user\<close> do not.
  On the store that holds Alice's record for \<^verbatim>\<open>a@x.com\<close>, \<open>create_user\<close> adds
  Mallory's record as submitted: a second record for \<^verbatim>\<open>a@x.com\<close>, whose password
  field is the plaintext. \<open>update_user\<close> gives Bob's record Alice's email.
\<close>

theorem create_user_breaks_invariant:
  "create_user sample_db mallory
     = (Inr (json (MsgUserContent ''User added'' (mallory\<lparr>user_id := Some 2\<rparr>))),
        sample_db @ [mallory\<lparr>user_id := Some 2\<rparr>])
   \<and> map email (snd (create_user sample_db mallory)) = [''a@x.com'', ''a@x.com'']
   \<and> password (last (snd (create_user sample_db mallory))) = ''hunter2''
   \<and> map email (snd (update_user (sample_db @ [bob_row]) 2 mallory)) = [''a@x.com'', ''a@x.com'']"
  by (simp add: create_user_def session_add_def next_rowid_def rowid_def Let_def
      sample_db_def mallory_def bob_row_def update_user_def session_get_def)

section \<open>Login\<close>

lemma login_cases:
  assumes "login crypt now db form_data = Inr resp"
  shows "\<exists>user. select_email_first db (username form_data) = Some user
           \<and> verify_password crypt (form_password form_data) (password user) = Inr True
           \<and> resp = \<lparr>content = TokenContent
                          (create_access_token now [''sub'' \<mapsto> JStr (email user)] 15) ''bearer'',
                      set_cookies =
                        [\<lparr>cookie_key = ''refresh_token'',
                          cookie_value = create_refresh_token [''sub'' \<mapsto> JStr (email user)],
                          httponly = True,
                          secure = False,
                          samesite = ''strict'',
                          max_age = 7 * 24 * 60 * 60\<rparr>]\<rparr>"
  using assms
  by (auto simp add: login_def Let_def split: option.splits sum.splits if_splits)

lemma login_sample:
  "login sample_crypt 1000 sample_db \<lparr>username = ''a@x.com'', form_password = ''correct horse''\<rparr>
     = Inr \<lparr>content = TokenContent
                        (create_access_token 1000 [''sub'' \<mapsto> JStr ''a@x.com''] 15) ''bearer'',
            set_cookies =
              [\<lparr>cookie_key = ''refresh_token'',
                cookie_value = create_refresh_token [''sub'' \<mapsto> JStr ''a@x.com''],
                httponly = True,
                secure = False,
                samesite = ''strict'',
                max_age = 604800\<rparr>]\<rparr>"
  by (simp add: sample_db_def login_def select_email_first_def pwd_defs sample_crypt_def
      sample_salt_def)

text \<open>
  The claim as stated fails on the secure flag: Alice's successful login sets the
  refresh cookie with \<^verbatim>\<open>secure=False\<close>.
\<close>

theorem login_cookie_counterexample:
  "login sample_crypt 1000 sample_db \<lparr>username = ''a@x.com'', form_password = ''correct horse''\<rparr>
     = Inr \<lparr>content = TokenContent
                        (create_access_token 1000 [''sub'' \<mapsto> JStr ''a@x.com''] 15) ''bearer'',
            set_cookies =
              [\<lparr>cookie_key = ''refresh_token'',
                cookie_value = create_refresh_token [''sub'' \<mapsto> JStr ''a@x.com''],
                httponly = True,
                secure = False,
                samesite = ''strict'',
                max_age = 604800\<rparr>]\<rparr>"
  by (rule login_sample)

text \<open>
  Claim C1, as amended. On a successful login, the response body contains the access
  token (issued at login time for 15 minutes, its subject the login email), and the
  refresh token is set as the one cookie of the response: HTTP-only, SameSite=Strict,
  with a max age of 7 days (604800 seconds), and with the secure flag off.
\<close>

theorem login_success_response:
  assumes "login crypt now db form_data = Inr resp"
  shows "content resp
           = TokenContent
               (create_access_token now [''sub'' \<mapsto> JStr (username form_data)] 15) ''bearer''
         \<and> set_cookies resp
           = [\<lparr>cookie_key = ''refresh_token'',
               cookie_value = create_refresh_token [''sub'' \<mapsto> JStr (username form_data)],
               httponly = True,
               secure = False,
               samesite = ''strict'',
               max_age = 604800\<rparr>]"
proof -
  from login_cases [OF assms] obtain user where
    u: "select_email_first db (username form_data) = Some user" and
    r: "resp = \<lparr>content = TokenContent
                   (create_access_token now [''sub'' \<mapsto> JStr (email user)] 15) ''bearer'',
                set_cookies =
                  [\<lparr>cookie_key = ''refresh_token'',
                    cookie_value = create_refresh_token [''sub'' \<mapsto> JStr (email user)],
                    httponly = True,
                    secure = False,
                    samesite = ''strict'',
                    max_age = 7 * 24 * 60 * 60\<rparr>]\<rparr>"
    by blast
  from select_email_first_email [OF u] have "email user = username form_data" by simp
  with r show ?thesis by simp
qed

theorem login_success_response_witness:
  "(\<exists>resp. login sample_crypt 1000 sample_db
              \<lparr>username = ''a@x.com'', form_password = ''correct horse''\<rparr> = Inr resp
      \<and> content resp
          = TokenContent (create_access_token 1000 [''sub'' \<mapsto> JStr ''a@x.com''] 15) ''bearer''
      \<and> map httponly (set_cookies resp) = [True]
      \<and> map secure (set_cookies resp) = [False]
      \<and> map samesite (set_cookies resp) = [''strict'']
      \<and> map max_age (set_cookies resp) = [604800])"
  using login_success_response [OF login_sample] login_sample
  by simp

end
